theory Spec2Isabelle
  imports Main
begin

section \<open>Python values handled by \<open>discord_slash/cog_ext.py\<close>\<close>

text \<open>
  The decorator factories of \<open>cog_ext.py\<close> are dynamically typed: every keyword argument
  defaults to \<open>None\<close> and is tested either with \<open>is None\<close> or through its truth value
  (\<open>or\<close>, \<open>if opts:\<close>). The values that can reach them are therefore modelled by one
  datatype of Python objects. The type parameter \<open>'f\<close> is the type of function objects
  (the decorated coroutine).
\<close>

datatype 'f pyval =
    PyNone
  | PyBool bool
  | PyInt int
  | PyStr string
  | PyList "'f pyval list"
  | PyDict "(string \<times> 'f pyval) list"
  | PyFunc 'f

text \<open>
  Python's truth value testing: \<open>None\<close>, \<open>False\<close>, zero, the empty string, the empty list
  and the empty dict are falsy; everything else, function objects included, is truthy.
\<close>

fun truthy :: "'f pyval \<Rightarrow> bool" where
  "truthy PyNone = False"
| "truthy (PyBool b) = b"
| "truthy (PyInt i) = (i \<noteq> 0)"
| "truthy (PyStr s) = (s \<noteq> [])"
| "truthy (PyList xs) = (xs \<noteq> [])"
| "truthy (PyDict kvs) = (kvs \<noteq> [])"
| "truthy (PyFunc f) = True"

text \<open>The expression \<open>a or b\<close>: the left operand when it is truthy, the right one otherwise.\<close>

definition py_or :: "'f pyval \<Rightarrow> 'f pyval \<Rightarrow> 'f pyval" where
  "py_or a b = (if truthy a then a else b)"

section \<open>What \<open>cog_ext.py\<close> imports\<close>

text \<open>
  The module calls \<open>inspect.getdoc\<close>, reads the attribute \<open>__name__\<close> of the decorated
  function, and calls the helpers \<open>manage_commands.generate_options\<close> and
  \<open>manage_commands.generate_auto_convert\<close> of \<open>discord_slash/utils\<close>. None of them is
  defined in \<open>cog_ext.py\<close>, so they are parameters of the model:
  \<^item> \<open>name_attr f\<close> is \<open>f.__name__\<close>, a string for every function object;
  \<^item> \<open>getdoc f\<close> is \<open>inspect.getdoc(f)\<close>, the cleaned docstring or \<open>None\<close>;
  \<^item> \<open>generate_options f desc\<close> and \<open>generate_auto_convert opts\<close> are the two helpers.
    A helper may raise: it returns \<open>Inl e\<close> for an exception \<open>e\<close> and \<open>Inr v\<close> for a
    value \<open>v\<close>.
\<close>

record ('f, 'e) env =
  name_attr :: "'f \<Rightarrow> string"
  getdoc :: "'f \<Rightarrow> 'f pyval"
  generate_options :: "'f \<Rightarrow> 'f pyval \<Rightarrow> 'e + 'f pyval"
  generate_auto_convert :: "'f pyval \<Rightarrow> 'e + 'f pyval"

text \<open>
  Modelled from the spec: the classes \<open>CogCommandObject\<close> and \<open>CogSubcommandObject\<close> of
  \<open>discord_slash/model.py\<close> are missing from the sources. The spec calls them the
  descriptor object classes that hold command metadata, small data-holding objects which
  wrap the function. A descriptor is therefore the constructor applied to the arguments
  that \<open>cog_ext.py\<close> passes: \<open>CogCommandObject(name, cmd_dict)\<close> and
  \<open>CogSubcommandObject(sub_dict, base, name, subcommand_group)\<close>.
\<close>

datatype 'f descriptor =
    CogCommandObject "'f pyval" "(string \<times> 'f pyval) list"
  | CogSubcommandObject "(string \<times> 'f pyval) list" "'f pyval" "'f pyval" "'f pyval"

text \<open>The dictionary a descriptor was built from, and the value it holds under a key.\<close>

fun descriptor_dict :: "'f descriptor \<Rightarrow> (string \<times> 'f pyval) list" where
  "descriptor_dict (CogCommandObject nm d) = d"
| "descriptor_dict (CogSubcommandObject d b nm g) = d"

definition field :: "'f descriptor \<Rightarrow> string \<Rightarrow> 'f pyval option" where
  "field obj k = map_of (descriptor_dict obj) k"

text \<open>The command name a descriptor was built from.\<close>

fun descriptor_name :: "'f descriptor \<Rightarrow> 'f pyval" where
  "descriptor_name (CogCommandObject nm d) = nm"
| "descriptor_name (CogSubcommandObject d b nm g) = nm"

section \<open>The decorator factories\<close>

text \<open>
  \<open>cog_slash(name, description, auto_convert, guild_ids, options)\<close> returns the closure
  \<open>wrapper\<close>; \<open>wrapper(cmd)\<close> returns the descriptor. In the model the closure is the
  partial application to the keyword arguments, and the last argument is \<open>cmd\<close>. An
  omitted keyword argument is \<open>PyNone\<close>, its default. An exception raised by a helper
  leaves the wrapper, so no descriptor is built.
\<close>

definition cog_slash ::
  "('f, 'e) env \<Rightarrow> 'f pyval \<Rightarrow> 'f pyval \<Rightarrow> 'f pyval \<Rightarrow> 'f pyval \<Rightarrow> 'f pyval \<Rightarrow> 'f
     \<Rightarrow> 'e + 'f descriptor" where
  "cog_slash ext name description auto_convert guild_ids options cmd =
     (let desc = py_or (py_or description (getdoc ext cmd)) (PyStr ''No description'') in
      case (if options = PyNone then generate_options ext cmd desc else Inr options) of
        Inl e \<Rightarrow> Inl e
      | Inr opts \<Rightarrow>
          (case (if truthy opts then generate_auto_convert ext opts else Inr auto_convert) of
             Inl e \<Rightarrow> Inl e
           | Inr auto_conv \<Rightarrow>
               (let cmd_dict =
                  [(''func'', PyFunc cmd),
                   (''description'', desc),
                   (''auto_convert'', auto_conv),
                   (''guild_ids'', guild_ids),
                   (''api_options'', opts),
                   (''has_subcommands'', PyBool False)]
                in Inr (CogCommandObject (py_or name (PyStr (name_attr ext cmd))) cmd_dict))))"

text \<open>
  \<open>cog_subcommand\<close> first rebinds \<open>base_description\<close> and
  \<open>subcommand_group_description\<close> to the alias when they are falsy, then returns its
  \<open>wrapper\<close>.
\<close>

definition cog_subcommand ::
  "('f, 'e) env \<Rightarrow> 'f pyval \<Rightarrow> 'f pyval \<Rightarrow> 'f pyval \<Rightarrow> 'f pyval \<Rightarrow> 'f pyval \<Rightarrow> 'f pyval
     \<Rightarrow> 'f pyval \<Rightarrow> 'f pyval \<Rightarrow> 'f pyval \<Rightarrow> 'f pyval \<Rightarrow> 'f pyval \<Rightarrow> 'f
     \<Rightarrow> 'e + 'f descriptor" where
  "cog_subcommand ext base subcommand_group name description base_description base_desc
       subcommand_group_description sub_group_desc auto_convert guild_ids options cmd =
     (let base_description' = py_or base_description base_desc;
          subcommand_group_description' = py_or subcommand_group_description sub_group_desc;
          desc = py_or (py_or description (getdoc ext cmd)) (PyStr ''No description'') in
      case (if options = PyNone then generate_options ext cmd desc else Inr options) of
        Inl e \<Rightarrow> Inl e
      | Inr opts \<Rightarrow>
          (case (if truthy opts then generate_auto_convert ext opts else Inr auto_convert) of
             Inl e \<Rightarrow> Inl e
           | Inr auto_conv \<Rightarrow>
               (let sub_dict =
                  [(''func'', PyFunc cmd),
                   (''name'', py_or name (PyStr (name_attr ext cmd))),
                   (''description'', desc),
                   (''base_desc'', py_or base_description' (PyStr ''No Description.'')),
                   (''sub_group_desc'',
                      py_or subcommand_group_description' (PyStr ''No Description.'')),
                   (''auto_convert'', auto_conv),
                   (''guild_ids'', guild_ids),
                   (''api_options'', opts)]
                in Inr (CogSubcommandObject sub_dict base
                          (py_or name (PyStr (name_attr ext cmd))) subcommand_group))))"

section \<open>A sample environment\<close>

text \<open>
  For evaluating the decorators on concrete inputs: function objects are their names,
  exceptions are messages. The function \<open>''documented''\<close> has the docstring \<open>Says hello.\<close>,
  every other function has none. \<open>generate_options\<close> raises for the function
  \<open>''broken''\<close>, returns no option for \<open>''bare''\<close> and one string option carrying the
  description otherwise; \<open>generate_auto_convert\<close> maps the option \<open>text\<close> to its type.
\<close>

definition sample_env :: "(string, string) env" where
  "sample_env =
     \<lparr> name_attr = (\<lambda>f. f),
       getdoc = (\<lambda>f. if f = ''documented'' then PyStr ''Says hello.'' else PyNone),
       generate_options = (\<lambda>f d.
         if f = ''broken'' then Inl ''StopIteration''
         else if f = ''bare'' then Inr (PyList [])
         else Inr (PyList [PyDict [(''name'', PyStr ''text''), (''description'', d),
                                   (''type'', PyInt 3), (''required'', PyBool True)]])),
       generate_auto_convert = (\<lambda>opts. Inr (PyDict [(''text'', PyInt 3)])) \<rparr>"

section \<open>Shared facts\<close>

lemma cog_slash_InrE:
  assumes "cog_slash ext name description auto_convert guild_ids options cmd = Inr obj"
  obtains opts auto_conv where
    "(if options = PyNone
      then generate_options ext cmd
             (py_or (py_or description (getdoc ext cmd)) (PyStr ''No description''))
      else Inr options) = Inr opts"
    "(if truthy opts then generate_auto_convert ext opts else Inr auto_convert) = Inr auto_conv"
    "obj = CogCommandObject (py_or name (PyStr (name_attr ext cmd)))
             [(''func'', PyFunc cmd),
              (''description'',
                 py_or (py_or description (getdoc ext cmd)) (PyStr ''No description'')),
              (''auto_convert'', auto_conv),
              (''guild_ids'', guild_ids),
              (''api_options'', opts),
              (''has_subcommands'', PyBool False)]"
  using assms unfolding cog_slash_def Let_def
  by (auto split: sum.splits)

lemma cog_subcommand_InrE:
  assumes "cog_subcommand ext base subcommand_group name description base_description
             base_desc subcommand_group_description sub_group_desc auto_convert guild_ids
             options cmd = Inr obj"
  obtains opts auto_conv where
    "(if options = PyNone
      then generate_options ext cmd
             (py_or (py_or description (getdoc ext cmd)) (PyStr ''No description''))
      else Inr options) = Inr opts"
    "(if truthy opts then generate_auto_convert ext opts else Inr auto_convert) = Inr auto_conv"
    "obj = CogSubcommandObject
             [(''func'', PyFunc cmd),
              (''name'', py_or name (PyStr (name_attr ext cmd))),
              (''description'',
                 py_or (py_or description (getdoc ext cmd)) (PyStr ''No description'')),
              (''base_desc'',
                 py_or (py_or base_description base_desc) (PyStr ''No Description.'')),
              (''sub_group_desc'',
                 py_or (py_or subcommand_group_description sub_group_desc)
                   (PyStr ''No Description.'')),
              (''auto_convert'', auto_conv),
              (''guild_ids'', guild_ids),
              (''api_options'', opts)]
             base (py_or name (PyStr (name_attr ext cmd))) subcommand_group"
  using assms unfolding cog_subcommand_def Let_def
  by (auto split: sum.splits)

text \<open>The chained \<open>or\<close> of the description and name defaults, written out.\<close>

lemma py_or_chain:
  "py_or (py_or a b) c = (if truthy a then a else if truthy b then b else c)"
  by (simp add: py_or_def)

text \<open>The two helper calls in sequence, for any way of building the descriptor.\<close>

lemma helper_calls_Inr_iff:
  "(case (if c then g else Inr options) of
      Inl e \<Rightarrow> Inl e
    | Inr opts \<Rightarrow>
        (case (if truthy opts then h opts else Inr auto_convert) of
           Inl e \<Rightarrow> Inl e
         | Inr auto_conv \<Rightarrow> Inr (build auto_conv opts))) = Inr obj \<longleftrightarrow>
   (\<exists>opts auto_conv.
      (if c then g = Inr opts else opts = options)
    \<and> (if truthy opts then h opts = Inr auto_conv else auto_conv = auto_convert)
    \<and> obj = build auto_conv opts)"
  by (auto split: sum.splits if_splits)

lemma helper_calls_Inl_iff:
  "(case (if c then g else Inr options) of
      Inl e \<Rightarrow> Inl e
    | Inr opts \<Rightarrow>
        (case (if truthy opts then h opts else Inr auto_convert) of
           Inl e \<Rightarrow> Inl e
         | Inr auto_conv \<Rightarrow> Inr (build auto_conv opts))) = Inl e \<longleftrightarrow>
   (c \<and> g = Inl e)
   \<or> (\<exists>opts. (if c then g = Inr opts else opts = options)
         \<and> truthy opts \<and> h opts = Inl e)"
  by (auto split: sum.splits if_splits)

text \<open>
  Exact results. A wrapper returns a descriptor exactly when every helper call it makes
  returns, and the descriptor is then determined by the arguments and the helpers'
  results; it fails exactly with the exception of the first helper call that raises.
\<close>

lemma cog_slash_Inr_iff:
  "cog_slash ext name description auto_convert guild_ids options cmd = Inr obj \<longleftrightarrow>
     (\<exists>opts auto_conv.
        (if options = PyNone
         then generate_options ext cmd
                (if truthy description then description
                 else if truthy (getdoc ext cmd) then getdoc ext cmd
                 else PyStr ''No description'') = Inr opts
         else opts = options)
      \<and> (if truthy opts then generate_auto_convert ext opts = Inr auto_conv
         else auto_conv = auto_convert)
      \<and> obj = CogCommandObject (if truthy name then name else PyStr (name_attr ext cmd))
          [(''func'', PyFunc cmd),
           (''description'',
              if truthy description then description
              else if truthy (getdoc ext cmd) then getdoc ext cmd
              else PyStr ''No description''),
           (''auto_convert'', auto_conv),
           (''guild_ids'', guild_ids),
           (''api_options'', opts),
           (''has_subcommands'', PyBool False)])"
  unfolding cog_slash_def Let_def
  unfolding py_or_chain
  unfolding py_or_def
  by (rule helper_calls_Inr_iff)

lemma cog_slash_Inl_iff:
  "cog_slash ext name description auto_convert guild_ids options cmd = Inl e \<longleftrightarrow>
     (options = PyNone
        \<and> generate_options ext cmd
             (if truthy description then description
              else if truthy (getdoc ext cmd) then getdoc ext cmd
              else PyStr ''No description'') = Inl e)
     \<or> (\<exists>opts.
          (if options = PyNone
           then generate_options ext cmd
                  (if truthy description then description
                   else if truthy (getdoc ext cmd) then getdoc ext cmd
                   else PyStr ''No description'') = Inr opts
           else opts = options)
        \<and> truthy opts \<and> generate_auto_convert ext opts = Inl e)"
  unfolding cog_slash_def Let_def
  unfolding py_or_chain
  unfolding py_or_def
  by (rule helper_calls_Inl_iff)

lemma cog_subcommand_Inr_iff:
  "cog_subcommand ext base subcommand_group name description base_description base_desc
       subcommand_group_description sub_group_desc auto_convert guild_ids options cmd
     = Inr obj \<longleftrightarrow>
     (\<exists>opts auto_conv.
        (if options = PyNone
         then generate_options ext cmd
                (if truthy description then description
                 else if truthy (getdoc ext cmd) then getdoc ext cmd
                 else PyStr ''No description'') = Inr opts
         else opts = options)
      \<and> (if truthy opts then generate_auto_convert ext opts = Inr auto_conv
         else auto_conv = auto_convert)
      \<and> obj = CogSubcommandObject
          [(''func'', PyFunc cmd),
           (''name'', if truthy name then name else PyStr (name_attr ext cmd)),
           (''description'',
              if truthy description then description
              else if truthy (getdoc ext cmd) then getdoc ext cmd
              else PyStr ''No description''),
           (''base_desc'',
              if truthy base_description then base_description
              else if truthy base_desc then base_desc
              else PyStr ''No Description.''),
           (''sub_group_desc'',
              if truthy subcommand_group_description then subcommand_group_description
              else if truthy sub_group_desc then sub_group_desc
              else PyStr ''No Description.''),
           (''auto_convert'', auto_conv),
           (''guild_ids'', guild_ids),
           (''api_options'', opts)]
          base (if truthy name then name else PyStr (name_attr ext cmd)) subcommand_group)"
  unfolding cog_subcommand_def Let_def
  unfolding py_or_chain
  unfolding py_or_def
  by (rule helper_calls_Inr_iff)

lemma cog_subcommand_Inl_iff:
  "cog_subcommand ext base subcommand_group name description base_description base_desc
       subcommand_group_description sub_group_desc auto_convert guild_ids options cmd
     = Inl e \<longleftrightarrow>
     (options = PyNone
        \<and> generate_options ext cmd
             (if truthy description then description
              else if truthy (getdoc ext cmd) then getdoc ext cmd
              else PyStr ''No description'') = Inl e)
     \<or> (\<exists>opts.
          (if options = PyNone
           then generate_options ext cmd
                  (if truthy description then description
                   else if truthy (getdoc ext cmd) then getdoc ext cmd
                   else PyStr ''No description'') = Inr opts
           else opts = options)
        \<and> truthy opts \<and> generate_auto_convert ext opts = Inl e)"
  unfolding cog_subcommand_def Let_def
  unfolding py_or_chain
  unfolding py_or_def
  by (rule helper_calls_Inl_iff)

text \<open>Values of the sample environment.\<close>

lemma sample_env_simps:
  "name_attr sample_env f = f"
  "getdoc sample_env f = (if f = ''documented'' then PyStr ''Says hello.'' else PyNone)"
  "generate_options sample_env f d =
     (if f = ''broken'' then Inl ''StopIteration''
      else if f = ''bare'' then Inr (PyList [])
      else Inr (PyList [PyDict [(''name'', PyStr ''text''), (''description'', d),
                                (''type'', PyInt 3), (''required'', PyBool True)]]))"
  "generate_auto_convert sample_env opts = Inr (PyDict [(''text'', PyInt 3)])"
  by (simp_all add: sample_env_def)

text \<open>Runs in the sample environment: both decorators on the same keyword arguments.\<close>

lemma slash_ping:
  "cog_slash sample_env PyNone PyNone (PyDict [(''n'', PyInt 4)]) (PyList [PyInt 7]) PyNone
       ''ping'' =
     Inr (CogCommandObject (PyStr ''ping'')
       [(''func'', PyFunc ''ping''),
        (''description'', PyStr ''No description''),
        (''auto_convert'', PyDict [(''text'', PyInt 3)]),
        (''guild_ids'', PyList [PyInt 7]),
        (''api_options'',
           PyList [PyDict [(''name'', PyStr ''text''),
                           (''description'', PyStr ''No description''),
                           (''type'', PyInt 3), (''required'', PyBool True)]]),
        (''has_subcommands'', PyBool False)])"
  by (simp add: cog_slash_def Let_def sample_env_simps py_or_def)

lemma sub_ping:
  "cog_subcommand sample_env (PyStr ''group'') PyNone PyNone PyNone (PyStr ''Base'')
       (PyStr ''Alias'') PyNone (PyStr ''Group'') (PyDict [(''n'', PyInt 4)])
       (PyList [PyInt 7]) PyNone ''ping'' =
     Inr (CogSubcommandObject
       [(''func'', PyFunc ''ping''),
        (''name'', PyStr ''ping''),
        (''description'', PyStr ''No description''),
        (''base_desc'', PyStr ''Base''),
        (''sub_group_desc'', PyStr ''Group''),
        (''auto_convert'', PyDict [(''text'', PyInt 3)]),
        (''guild_ids'', PyList [PyInt 7]),
        (''api_options'',
           PyList [PyDict [(''name'', PyStr ''text''),
                           (''description'', PyStr ''No description''),
                           (''type'', PyInt 3), (''required'', PyBool True)]])]
       (PyStr ''group'') (PyStr ''ping'') PyNone)"
  by (simp add: cog_subcommand_def Let_def sample_env_simps py_or_def)

lemma slash_documented:
  "cog_slash sample_env (PyStr '''') (PyStr '''') (PyDict [(''n'', PyInt 4)]) PyNone
       (PyList []) ''documented'' =
     Inr (CogCommandObject (PyStr ''documented'')
       [(''func'', PyFunc ''documented''),
        (''description'', PyStr ''Says hello.''),
        (''auto_convert'', PyDict [(''n'', PyInt 4)]),
        (''guild_ids'', PyNone),
        (''api_options'', PyList []),
        (''has_subcommands'', PyBool False)])"
  by (simp add: cog_slash_def Let_def sample_env_simps py_or_def)

lemma sub_documented:
  "cog_subcommand sample_env (PyStr ''group'') (PyStr ''sub'') (PyStr '''') (PyStr '''')
       (PyStr '''') (PyStr ''Alias'') (PyStr '''') PyNone (PyDict [(''n'', PyInt 4)]) PyNone
       (PyList []) ''documented'' =
     Inr (CogSubcommandObject
       [(''func'', PyFunc ''documented''),
        (''name'', PyStr ''documented''),
        (''description'', PyStr ''Says hello.''),
        (''base_desc'', PyStr ''Alias''),
        (''sub_group_desc'', PyStr ''No Description.''),
        (''auto_convert'', PyDict [(''n'', PyInt 4)]),
        (''guild_ids'', PyNone),
        (''api_options'', PyList [])]
       (PyStr ''group'') (PyStr ''documented'') (PyStr ''sub''))"
  by (simp add: cog_subcommand_def Let_def sample_env_simps py_or_def)

lemma slash_bare:
  "cog_slash sample_env (PyStr ''plain'') (PyStr ''Plain command'') (PyDict [(''n'', PyInt 4)])
       PyNone PyNone ''bare'' =
     Inr (CogCommandObject (PyStr ''plain'')
       [(''func'', PyFunc ''bare''),
        (''description'', PyStr ''Plain command''),
        (''auto_convert'', PyDict [(''n'', PyInt 4)]),
        (''guild_ids'', PyNone),
        (''api_options'', PyList []),
        (''has_subcommands'', PyBool False)])"
  by (simp add: cog_slash_def Let_def sample_env_simps py_or_def)

lemma sub_bare:
  "cog_subcommand sample_env (PyStr ''group'') PyNone (PyStr ''plain'')
       (PyStr ''Plain command'') PyNone PyNone PyNone PyNone (PyDict [(''n'', PyInt 4)]) PyNone
       PyNone ''bare'' =
     Inr (CogSubcommandObject
       [(''func'', PyFunc ''bare''),
        (''name'', PyStr ''plain''),
        (''description'', PyStr ''Plain command''),
        (''base_desc'', PyStr ''No Description.''),
        (''sub_group_desc'', PyStr ''No Description.''),
        (''auto_convert'', PyDict [(''n'', PyInt 4)]),
        (''guild_ids'', PyNone),
        (''api_options'', PyList [])]
       (PyStr ''group'') (PyStr ''plain'') PyNone)"
  by (simp add: cog_subcommand_def Let_def sample_env_simps py_or_def)

lemma slash_broken:
  "cog_slash sample_env PyNone PyNone PyNone PyNone PyNone ''broken'' = Inl ''StopIteration''"
  by (simp add: cog_slash_def Let_def sample_env_simps)

lemma sub_broken:
  "cog_subcommand sample_env (PyStr ''group'') PyNone PyNone PyNone PyNone PyNone PyNone
     PyNone PyNone PyNone PyNone ''broken'' = Inl ''StopIteration''"
  by (simp add: cog_subcommand_def Let_def sample_env_simps)

lemma slash_doc_gen:
  "cog_slash sample_env PyNone PyNone PyNone PyNone PyNone ''documented'' =
     Inr (CogCommandObject (PyStr ''documented'')
       [(''func'', PyFunc ''documented''),
        (''description'', PyStr ''Says hello.''),
        (''auto_convert'', PyDict [(''text'', PyInt 3)]),
        (''guild_ids'', PyNone),
        (''api_options'',
           PyList [PyDict [(''name'', PyStr ''text''),
                           (''description'', PyStr ''Says hello.''),
                           (''type'', PyInt 3), (''required'', PyBool True)]]),
        (''has_subcommands'', PyBool False)])"
  by (simp add: cog_slash_def Let_def sample_env_simps py_or_def)

lemma sub_doc_gen:
  "cog_subcommand sample_env (PyStr ''group'') PyNone PyNone PyNone PyNone PyNone PyNone
       PyNone PyNone PyNone PyNone ''documented'' =
     Inr (CogSubcommandObject
       [(''func'', PyFunc ''documented''),
        (''name'', PyStr ''documented''),
        (''description'', PyStr ''Says hello.''),
        (''base_desc'', PyStr ''No Description.''),
        (''sub_group_desc'', PyStr ''No Description.''),
        (''auto_convert'', PyDict [(''text'', PyInt 3)]),
        (''guild_ids'', PyNone),
        (''api_options'',
           PyList [PyDict [(''name'', PyStr ''text''),
                           (''description'', PyStr ''Says hello.''),
                           (''type'', PyInt 3), (''required'', PyBool True)]])]
       (PyStr ''group'') (PyStr ''documented'') PyNone)"
  by (simp add: cog_subcommand_def Let_def sample_env_simps py_or_def)

lemma slash_desc_gen:
  "cog_slash sample_env PyNone (PyStr ''Say it'') PyNone PyNone PyNone ''documented'' =
     Inr (CogCommandObject (PyStr ''documented'')
       [(''func'', PyFunc ''documented''),
        (''description'', PyStr ''Say it''),
        (''auto_convert'', PyDict [(''text'', PyInt 3)]),
        (''guild_ids'', PyNone),
        (''api_options'',
           PyList [PyDict [(''name'', PyStr ''text''),
                           (''description'', PyStr ''Say it''),
                           (''type'', PyInt 3), (''required'', PyBool True)]]),
        (''has_subcommands'', PyBool False)])"
  by (simp add: cog_slash_def Let_def sample_env_simps py_or_def)

lemma sub_desc_gen:
  "cog_subcommand sample_env (PyStr ''group'') PyNone PyNone (PyStr ''Say it'') PyNone PyNone
       PyNone PyNone PyNone PyNone PyNone ''documented'' =
     Inr (CogSubcommandObject
       [(''func'', PyFunc ''documented''),
        (''name'', PyStr ''documented''),
        (''description'', PyStr ''Say it''),
        (''base_desc'', PyStr ''No Description.''),
        (''sub_group_desc'', PyStr ''No Description.''),
        (''auto_convert'', PyDict [(''text'', PyInt 3)]),
        (''guild_ids'', PyNone),
        (''api_options'',
           PyList [PyDict [(''name'', PyStr ''text''),
                           (''description'', PyStr ''Say it''),
                           (''type'', PyInt 3), (''required'', PyBool True)]])]
       (PyStr ''group'') (PyStr ''documented'') PyNone)"
  by (simp add: cog_subcommand_def Let_def sample_env_simps py_or_def)

lemma slash_given:
  "cog_slash sample_env (PyStr ''echo'') PyNone PyNone PyNone
       (PyList [PyDict [(''name'', PyStr ''n'')]]) ''ping'' =
     Inr (CogCommandObject (PyStr ''echo'')
       [(''func'', PyFunc ''ping''),
        (''description'', PyStr ''No description''),
        (''auto_convert'', PyDict [(''text'', PyInt 3)]),
        (''guild_ids'', PyNone),
        (''api_options'', PyList [PyDict [(''name'', PyStr ''n'')]]),
        (''has_subcommands'', PyBool False)])"
  by (simp add: cog_slash_def Let_def sample_env_simps py_or_def)

lemma sub_given:
  "cog_subcommand sample_env (PyStr ''group'') PyNone (PyStr ''echo'') PyNone PyNone PyNone
       PyNone PyNone PyNone PyNone (PyList [PyDict [(''name'', PyStr ''n'')]]) ''ping'' =
     Inr (CogSubcommandObject
       [(''func'', PyFunc ''ping''),
        (''name'', PyStr ''echo''),
        (''description'', PyStr ''No description''),
        (''base_desc'', PyStr ''No Description.''),
        (''sub_group_desc'', PyStr ''No Description.''),
        (''auto_convert'', PyDict [(''text'', PyInt 3)]),
        (''guild_ids'', PyNone),
        (''api_options'', PyList [PyDict [(''name'', PyStr ''n'')]])]
       (PyStr ''group'') (PyStr ''echo'') PyNone)"
  by (simp add: cog_subcommand_def Let_def sample_env_simps py_or_def)

section \<open>Claims\<close>

text \<open>
  C1. When the \<open>options\<close> keyword argument is \<open>None\<close>, the option list stored in the
  descriptor under \<open>api_options\<close> is the result of \<open>generate_options(cmd, desc)\<close>, where
  \<open>desc\<close> is the resolved description: the \<open>description\<close> argument if truthy, otherwise the
  docstring if truthy, otherwise \<open>No description\<close>; it is also the value stored under
  \<open>description\<close>. An exception of that call leaves the wrapper. When \<open>options\<close> is not
  \<open>None\<close>, the stored option list is the \<open>options\<close> argument itself. This holds for
  \<open>cog_slash\<close> and for \<open>cog_subcommand\<close>.
\<close>

theorem stored_api_options:
  "(cog_slash ext name description auto_convert guild_ids options cmd = Inr obj \<longrightarrow>
      field obj ''description'' =
        Some (if truthy description then description
              else if truthy (getdoc ext cmd) then getdoc ext cmd
              else PyStr ''No description'')
      \<and> (if options = PyNone
         then \<exists>opts. generate_options ext cmd
                        (if truthy description then description
                         else if truthy (getdoc ext cmd) then getdoc ext cmd
                         else PyStr ''No description'') = Inr opts
                \<and> field obj ''api_options'' = Some opts
         else field obj ''api_options'' = Some options))
   \<and> (options = PyNone
        \<and> generate_options ext cmd
             (if truthy description then description
              else if truthy (getdoc ext cmd) then getdoc ext cmd
              else PyStr ''No description'') = Inl e \<longrightarrow>
      cog_slash ext name description auto_convert guild_ids options cmd = Inl e)
   \<and> (cog_subcommand ext base subcommand_group name description base_description base_desc
         subcommand_group_description sub_group_desc auto_convert guild_ids options cmd
         = Inr obj' \<longrightarrow>
      field obj' ''description'' =
        Some (if truthy description then description
              else if truthy (getdoc ext cmd) then getdoc ext cmd
              else PyStr ''No description'')
      \<and> (if options = PyNone
         then \<exists>opts. generate_options ext cmd
                        (if truthy description then description
                         else if truthy (getdoc ext cmd) then getdoc ext cmd
                         else PyStr ''No description'') = Inr opts
                \<and> field obj' ''api_options'' = Some opts
         else field obj' ''api_options'' = Some options))
   \<and> (options = PyNone
        \<and> generate_options ext cmd
             (if truthy description then description
              else if truthy (getdoc ext cmd) then getdoc ext cmd
              else PyStr ''No description'') = Inl e \<longrightarrow>
      cog_subcommand ext base subcommand_group name description base_description base_desc
         subcommand_group_description sub_group_desc auto_convert guild_ids options cmd
         = Inl e)"
proof -
  let ?desc = "if truthy description then description
               else if truthy (getdoc ext cmd) then getdoc ext cmd
               else PyStr ''No description''"
  have slash: "field obj ''description'' = Some ?desc
      \<and> (if options = PyNone
         then \<exists>opts. generate_options ext cmd ?desc = Inr opts
                \<and> field obj ''api_options'' = Some opts
         else field obj ''api_options'' = Some options)"
    if "cog_slash ext name description auto_convert guild_ids options cmd = Inr obj"
  proof -
    from that obtain opts auto_conv where
      opts: "if options = PyNone then generate_options ext cmd ?desc = Inr opts
             else opts = options"
      and obj: "obj = CogCommandObject (if truthy name then name else PyStr (name_attr ext cmd))
          [(''func'', PyFunc cmd), (''description'', ?desc), (''auto_convert'', auto_conv),
           (''guild_ids'', guild_ids), (''api_options'', opts),
           (''has_subcommands'', PyBool False)]"
      unfolding cog_slash_Inr_iff by blast
    from obj have "field obj ''description'' = Some ?desc"
      and "field obj ''api_options'' = Some opts"
      by (simp_all add: field_def)
    with opts show ?thesis
      by (cases "options = PyNone") simp_all
  qed
  have sub: "field obj' ''description'' = Some ?desc
      \<and> (if options = PyNone
         then \<exists>opts. generate_options ext cmd ?desc = Inr opts
                \<and> field obj' ''api_options'' = Some opts
         else field obj' ''api_options'' = Some options)"
    if "cog_subcommand ext base subcommand_group name description base_description base_desc
         subcommand_group_description sub_group_desc auto_convert guild_ids options cmd
         = Inr obj'"
  proof -
    from that obtain opts auto_conv where
      opts: "if options = PyNone then generate_options ext cmd ?desc = Inr opts
             else opts = options"
      and obj: "obj' = CogSubcommandObject
          [(''func'', PyFunc cmd),
           (''name'', if truthy name then name else PyStr (name_attr ext cmd)),
           (''description'', ?desc),
           (''base_desc'',
              if truthy base_description then base_description
              else if truthy base_desc then base_desc
              else PyStr ''No Description.''),
           (''sub_group_desc'',
              if truthy subcommand_group_description then subcommand_group_description
              else if truthy sub_group_desc then sub_group_desc
              else PyStr ''No Description.''),
           (''auto_convert'', auto_conv), (''guild_ids'', guild_ids),
           (''api_options'', opts)]
          base (if truthy name then name else PyStr (name_attr ext cmd)) subcommand_group"
      unfolding cog_subcommand_Inr_iff by blast
    from obj have "field obj' ''description'' = Some ?desc"
      and "field obj' ''api_options'' = Some opts"
      by (simp_all add: field_def)
    with opts show ?thesis
      by (cases "options = PyNone") simp_all
  qed
  have slash_fails: "cog_slash ext name description auto_convert guild_ids options cmd = Inl e"
    if "options = PyNone \<and> generate_options ext cmd ?desc = Inl e"
    using that by (simp add: cog_slash_Inl_iff)
  have sub_fails: "cog_subcommand ext base subcommand_group name description base_description
         base_desc subcommand_group_description sub_group_desc auto_convert guild_ids options
         cmd = Inl e"
    if "options = PyNone \<and> generate_options ext cmd ?desc = Inl e"
    using that by (simp add: cog_subcommand_Inl_iff)
  from slash sub slash_fails sub_fails show ?thesis
    by blast
qed

theorem stored_api_options_witness:
  "(\<exists>obj.
      cog_slash sample_env PyNone PyNone (PyDict [(''n'', PyInt 4)]) (PyList [PyInt 7]) PyNone
        ''ping'' = Inr obj
      \<and> generate_options sample_env ''ping'' (PyStr ''No description'')
          = Inr (PyList [PyDict [(''name'', PyStr ''text''),
                                 (''description'', PyStr ''No description''),
                                 (''type'', PyInt 3), (''required'', PyBool True)]])
      \<and> field obj ''api_options''
          = Some (PyList [PyDict [(''name'', PyStr ''text''),
                                  (''description'', PyStr ''No description''),
                                  (''type'', PyInt 3), (''required'', PyBool True)]]))
   \<and> (\<exists>obj.
      cog_slash sample_env PyNone PyNone PyNone PyNone PyNone ''documented'' = Inr obj
      \<and> generate_options sample_env ''documented'' (PyStr ''Says hello.'')
          = Inr (PyList [PyDict [(''name'', PyStr ''text''),
                                 (''description'', PyStr ''Says hello.''),
                                 (''type'', PyInt 3), (''required'', PyBool True)]])
      \<and> field obj ''api_options''
          = Some (PyList [PyDict [(''name'', PyStr ''text''),
                                  (''description'', PyStr ''Says hello.''),
                                  (''type'', PyInt 3), (''required'', PyBool True)]]))
   \<and> (\<exists>obj.
      cog_slash sample_env PyNone (PyStr ''Say it'') PyNone PyNone PyNone ''documented''
        = Inr obj
      \<and> generate_options sample_env ''documented'' (PyStr ''Say it'')
          = Inr (PyList [PyDict [(''name'', PyStr ''text''),
                                 (''description'', PyStr ''Say it''),
                                 (''type'', PyInt 3), (''required'', PyBool True)]])
      \<and> field obj ''api_options''
          = Some (PyList [PyDict [(''name'', PyStr ''text''),
                                  (''description'', PyStr ''Say it''),
                                  (''type'', PyInt 3), (''required'', PyBool True)]]))
   \<and> (\<exists>obj.
      cog_slash sample_env (PyStr ''echo'') PyNone PyNone PyNone
        (PyList [PyDict [(''name'', PyStr ''n'')]]) ''ping'' = Inr obj
      \<and> field obj ''api_options'' = Some (PyList [PyDict [(''name'', PyStr ''n'')]]))
   \<and> (\<exists>obj.
      cog_slash sample_env (PyStr '''') (PyStr '''') (PyDict [(''n'', PyInt 4)]) PyNone
        (PyList []) ''documented'' = Inr obj
      \<and> field obj ''api_options'' = Some (PyList []))
   \<and> cog_slash sample_env PyNone PyNone PyNone PyNone PyNone ''broken''
       = Inl ''StopIteration''
   \<and> (\<exists>obj.
      cog_subcommand sample_env (PyStr ''group'') PyNone PyNone PyNone (PyStr ''Base'')
        (PyStr ''Alias'') PyNone (PyStr ''Group'') (PyDict [(''n'', PyInt 4)])
        (PyList [PyInt 7]) PyNone ''ping'' = Inr obj
      \<and> field obj ''api_options''
          = Some (PyList [PyDict [(''name'', PyStr ''text''),
                                  (''description'', PyStr ''No description''),
                                  (''type'', PyInt 3), (''required'', PyBool True)]]))
   \<and> (\<exists>obj.
      cog_subcommand sample_env (PyStr ''group'') PyNone PyNone PyNone PyNone PyNone PyNone
        PyNone PyNone PyNone PyNone ''documented'' = Inr obj
      \<and> field obj ''api_options''
          = Some (PyList [PyDict [(''name'', PyStr ''text''),
                                  (''description'', PyStr ''Says hello.''),
                                  (''type'', PyInt 3), (''required'', PyBool True)]]))
   \<and> (\<exists>obj.
      cog_subcommand sample_env (PyStr ''group'') PyNone PyNone (PyStr ''Say it'') PyNone
        PyNone PyNone PyNone PyNone PyNone PyNone ''documented'' = Inr obj
      \<and> field obj ''api_options''
          = Some (PyList [PyDict [(''name'', PyStr ''text''),
                                  (''description'', PyStr ''Say it''),
                                  (''type'', PyInt 3), (''required'', PyBool True)]]))
   \<and> (\<exists>obj.
      cog_subcommand sample_env (PyStr ''group'') PyNone (PyStr ''echo'') PyNone PyNone
        PyNone PyNone PyNone PyNone PyNone (PyList [PyDict [(''name'', PyStr ''n'')]])
        ''ping'' = Inr obj
      \<and> field obj ''api_options'' = Some (PyList [PyDict [(''name'', PyStr ''n'')]]))
   \<and> (\<exists>obj.
      cog_subcommand sample_env (PyStr ''group'') (PyStr ''sub'') (PyStr '''') (PyStr '''')
        (PyStr '''') (PyStr ''Alias'') (PyStr '''') PyNone (PyDict [(''n'', PyInt 4)]) PyNone
        (PyList []) ''documented'' = Inr obj
      \<and> field obj ''api_options'' = Some (PyList []))
   \<and> cog_subcommand sample_env (PyStr ''group'') PyNone PyNone PyNone PyNone PyNone PyNone
        PyNone PyNone PyNone PyNone ''broken'' = Inl ''StopIteration''"
proof -
  note slash = stored_api_options [THEN conjunct1, rule_format]
    and slash_fails = stored_api_options [THEN conjunct2, THEN conjunct1, rule_format]
    and sub = stored_api_options [THEN conjunct2, THEN conjunct2, THEN conjunct1, rule_format]
    and sub_fails = stored_api_options [THEN conjunct2, THEN conjunct2, THEN conjunct2,
      rule_format]
  have "cog_slash sample_env PyNone PyNone PyNone PyNone PyNone ''broken''
          = Inl ''StopIteration''"
    by (rule slash_fails) (simp add: sample_env_simps)
  moreover have "cog_subcommand sample_env (PyStr ''group'') PyNone PyNone PyNone PyNone
        PyNone PyNone PyNone PyNone PyNone PyNone ''broken'' = Inl ''StopIteration''"
    by (rule sub_fails) (simp add: sample_env_simps)
  ultimately show ?thesis
    using slash [OF slash_ping] slash [OF slash_doc_gen] slash [OF slash_desc_gen]
      slash [OF slash_given] slash [OF slash_documented]
      sub [OF sub_ping] sub [OF sub_doc_gen] sub [OF sub_desc_gen]
      sub [OF sub_given] sub [OF sub_documented]
    by (simp add: slash_ping slash_doc_gen slash_desc_gen slash_given slash_documented
        sub_ping sub_doc_gen sub_desc_gen sub_given sub_documented sample_env_simps)
qed

text \<open>
  C10. Every descriptor produced by \<open>cog_slash\<close> has its \<open>has_subcommands\<close> field equal to
  \<open>False\<close>, for all argument combinations and all decorated functions.
\<close>

theorem cog_slash_has_subcommands_False:
  "cog_slash ext name description auto_convert guild_ids options cmd = Inr obj
     \<Longrightarrow> field obj ''has_subcommands'' = Some (PyBool False)"
  by (erule cog_slash_InrE) (simp add: field_def)

theorem cog_slash_has_subcommands_False_witness:
  "\<exists>obj. cog_slash sample_env PyNone PyNone (PyDict [(''n'', PyInt 4)]) (PyList [PyInt 7])
            PyNone ''ping'' = Inr obj
         \<and> field obj ''has_subcommands'' = Some (PyBool False)"
  using cog_slash_has_subcommands_False [OF slash_ping] slash_ping by simp

text \<open>
  C2. The description stored in the descriptor is resolved by a three-step fallback: the
  \<open>description\<close> keyword argument if it is truthy, otherwise the docstring
  \<open>inspect.getdoc(cmd)\<close> if that is truthy, otherwise the placeholder \<open>No description\<close>.
  This holds for \<open>cog_slash\<close> and for \<open>cog_subcommand\<close>.
\<close>

theorem stored_description:
  "(cog_slash ext name description auto_convert guild_ids options cmd = Inr obj \<longrightarrow>
      field obj ''description'' =
        Some (if truthy description then description
              else if truthy (getdoc ext cmd) then getdoc ext cmd
              else PyStr ''No description''))
   \<and> (cog_subcommand ext base subcommand_group name description base_description base_desc
         subcommand_group_description sub_group_desc auto_convert guild_ids options cmd
         = Inr obj' \<longrightarrow>
      field obj' ''description'' =
        Some (if truthy description then description
              else if truthy (getdoc ext cmd) then getdoc ext cmd
              else PyStr ''No description''))"
proof (intro conjI impI)
  assume "cog_slash ext name description auto_convert guild_ids options cmd = Inr obj"
  then show "field obj ''description'' =
        Some (if truthy description then description
              else if truthy (getdoc ext cmd) then getdoc ext cmd
              else PyStr ''No description'')"
    by (elim cog_slash_InrE) (simp add: field_def py_or_def)
next
  assume "cog_subcommand ext base subcommand_group name description base_description base_desc
         subcommand_group_description sub_group_desc auto_convert guild_ids options cmd
         = Inr obj'"
  then show "field obj' ''description'' =
        Some (if truthy description then description
              else if truthy (getdoc ext cmd) then getdoc ext cmd
              else PyStr ''No description'')"
    by (elim cog_subcommand_InrE) (simp add: field_def py_or_def)
qed

theorem stored_description_witness:
  "(\<exists>obj. cog_slash sample_env (PyStr ''plain'') (PyStr ''Plain command'')
             (PyDict [(''n'', PyInt 4)]) PyNone PyNone ''bare'' = Inr obj
          \<and> field obj ''description'' = Some (PyStr ''Plain command''))
   \<and> (\<exists>obj. cog_slash sample_env (PyStr '''') (PyStr '''') (PyDict [(''n'', PyInt 4)]) PyNone
             (PyList []) ''documented'' = Inr obj
          \<and> field obj ''description'' = Some (PyStr ''Says hello.''))
   \<and> (\<exists>obj. cog_slash sample_env PyNone PyNone (PyDict [(''n'', PyInt 4)])
             (PyList [PyInt 7]) PyNone ''ping'' = Inr obj
          \<and> field obj ''description'' = Some (PyStr ''No description''))
   \<and> (\<exists>obj. cog_subcommand sample_env (PyStr ''group'') PyNone (PyStr ''plain'')
             (PyStr ''Plain command'') PyNone PyNone PyNone PyNone
             (PyDict [(''n'', PyInt 4)]) PyNone PyNone ''bare'' = Inr obj
          \<and> field obj ''description'' = Some (PyStr ''Plain command''))
   \<and> (\<exists>obj. cog_subcommand sample_env (PyStr ''group'') (PyStr ''sub'') (PyStr '''')
             (PyStr '''') (PyStr '''') (PyStr ''Alias'') (PyStr '''') PyNone
             (PyDict [(''n'', PyInt 4)]) PyNone (PyList []) ''documented'' = Inr obj
          \<and> field obj ''description'' = Some (PyStr ''Says hello.''))
   \<and> (\<exists>obj. cog_subcommand sample_env (PyStr ''group'') PyNone PyNone PyNone
             (PyStr ''Base'') (PyStr ''Alias'') PyNone (PyStr ''Group'')
             (PyDict [(''n'', PyInt 4)]) (PyList [PyInt 7]) PyNone ''ping'' = Inr obj
          \<and> field obj ''description'' = Some (PyStr ''No description''))"
  using stored_description [THEN conjunct1, rule_format, OF slash_bare]
    stored_description [THEN conjunct1, rule_format, OF slash_documented]
    stored_description [THEN conjunct1, rule_format, OF slash_ping]
    stored_description [THEN conjunct2, rule_format, OF sub_bare]
    stored_description [THEN conjunct2, rule_format, OF sub_documented]
    stored_description [THEN conjunct2, rule_format, OF sub_ping]
  by (simp add: slash_bare slash_documented slash_ping sub_bare sub_documented sub_ping
      sample_env_simps)



text \<open>
  C5. In \<open>cog_subcommand\<close> the base description is the \<open>base_description\<close> argument when
  it is truthy, otherwise the alias \<open>base_desc\<close>; the subcommand-group description is
  \<open>subcommand_group_description\<close> when truthy, otherwise the alias \<open>sub_group_desc\<close>; and
  when a whole alias pair is falsy, the value stored under \<open>base_desc\<close>, respectively
  \<open>sub_group_desc\<close>, is the string \<open>No Description.\<close>.
\<close>

theorem stored_base_and_group_description:
  "cog_subcommand ext base subcommand_group name description base_description base_desc
       subcommand_group_description sub_group_desc auto_convert guild_ids options cmd = Inr obj
   \<Longrightarrow> field obj ''base_desc'' =
         Some (if truthy base_description then base_description
               else if truthy base_desc then base_desc
               else PyStr ''No Description.'')
     \<and> field obj ''sub_group_desc'' =
         Some (if truthy subcommand_group_description then subcommand_group_description
               else if truthy sub_group_desc then sub_group_desc
               else PyStr ''No Description.'')"
  by (erule cog_subcommand_InrE) (simp add: field_def py_or_def)

theorem stored_base_and_group_description_witness:
  "(\<exists>obj.
      cog_subcommand sample_env (PyStr ''group'') PyNone PyNone PyNone (PyStr ''Base'')
        (PyStr ''Alias'') PyNone (PyStr ''Group'') (PyDict [(''n'', PyInt 4)])
        (PyList [PyInt 7]) PyNone ''ping'' = Inr obj
      \<and> field obj ''base_desc'' = Some (PyStr ''Base'')
      \<and> field obj ''sub_group_desc'' = Some (PyStr ''Group''))
   \<and> (\<exists>obj.
      cog_subcommand sample_env (PyStr ''group'') (PyStr ''sub'') (PyStr '''') (PyStr '''')
        (PyStr '''') (PyStr ''Alias'') (PyStr '''') PyNone (PyDict [(''n'', PyInt 4)]) PyNone
        (PyList []) ''documented'' = Inr obj
      \<and> field obj ''base_desc'' = Some (PyStr ''Alias'')
      \<and> field obj ''sub_group_desc'' = Some (PyStr ''No Description.''))
   \<and> (\<exists>obj.
      cog_subcommand sample_env (PyStr ''group'') PyNone (PyStr ''plain'')
        (PyStr ''Plain command'') PyNone PyNone PyNone PyNone (PyDict [(''n'', PyInt 4)])
        PyNone PyNone ''bare'' = Inr obj
      \<and> field obj ''base_desc'' = Some (PyStr ''No Description.'')
      \<and> field obj ''sub_group_desc'' = Some (PyStr ''No Description.''))"
  using stored_base_and_group_description [OF sub_ping]
    stored_base_and_group_description [OF sub_documented]
    stored_base_and_group_description [OF sub_bare]
  by (simp add: sub_ping sub_documented sub_bare)





text \<open>
  C6. The wrapper of \<open>cog_slash\<close> returns a \<open>CogCommandObject\<close> built from a command name,
  which is the \<open>name\<close> argument if truthy and \<open>cmd.__name__\<close> otherwise, and from a
  dictionary with exactly the keys \<open>func\<close>, \<open>description\<close>, \<open>auto_convert\<close>, \<open>guild_ids\<close>,
  \<open>api_options\<close> and \<open>has_subcommands\<close>: \<open>func\<close> is \<open>cmd\<close>, \<open>description\<close> the resolved
  description, \<open>auto_convert\<close> the resolved conversion map, \<open>guild_ids\<close> the argument,
  \<open>api_options\<close> the resolved option list and \<open>has_subcommands\<close> is \<open>False\<close>. It returns
  this descriptor exactly when the helper calls it makes return, and it fails exactly with
  the exception of the helper call that raised.
\<close>

theorem cog_slash_returns_command_object:
  "(cog_slash ext name description auto_convert guild_ids options cmd = Inr obj \<longleftrightarrow>
     (\<exists>opts auto_conv.
        (if options = PyNone
         then generate_options ext cmd
                (if truthy description then description
                 else if truthy (getdoc ext cmd) then getdoc ext cmd
                 else PyStr ''No description'') = Inr opts
         else opts = options)
      \<and> (if truthy opts then generate_auto_convert ext opts = Inr auto_conv
         else auto_conv = auto_convert)
      \<and> obj = CogCommandObject (if truthy name then name else PyStr (name_attr ext cmd))
          [(''func'', PyFunc cmd),
           (''description'',
              if truthy description then description
              else if truthy (getdoc ext cmd) then getdoc ext cmd
              else PyStr ''No description''),
           (''auto_convert'', auto_conv),
           (''guild_ids'', guild_ids),
           (''api_options'', opts),
           (''has_subcommands'', PyBool False)]))
   \<and> (cog_slash ext name description auto_convert guild_ids options cmd = Inr obj \<longrightarrow>
        map fst (descriptor_dict obj)
          = [''func'', ''description'', ''auto_convert'', ''guild_ids'', ''api_options'',
             ''has_subcommands'']
        \<and> descriptor_name obj = (if truthy name then name else PyStr (name_attr ext cmd)))
   \<and> (cog_slash ext name description auto_convert guild_ids options cmd = Inl e \<longleftrightarrow>
        (options = PyNone
           \<and> generate_options ext cmd
                (if truthy description then description
                 else if truthy (getdoc ext cmd) then getdoc ext cmd
                 else PyStr ''No description'') = Inl e)
        \<or> (\<exists>opts.
             (if options = PyNone
              then generate_options ext cmd
                     (if truthy description then description
                      else if truthy (getdoc ext cmd) then getdoc ext cmd
                      else PyStr ''No description'') = Inr opts
              else opts = options)
           \<and> truthy opts \<and> generate_auto_convert ext opts = Inl e))"
proof (intro conjI impI)
  assume "cog_slash ext name description auto_convert guild_ids options cmd = Inr obj"
  then show "map fst (descriptor_dict obj)
          = [''func'', ''description'', ''auto_convert'', ''guild_ids'', ''api_options'',
             ''has_subcommands'']"
    by (elim cog_slash_InrE) simp
next
  assume "cog_slash ext name description auto_convert guild_ids options cmd = Inr obj"
  then show "descriptor_name obj = (if truthy name then name else PyStr (name_attr ext cmd))"
    by (elim cog_slash_InrE) (simp add: py_or_def)
qed (rule cog_slash_Inr_iff cog_slash_Inl_iff)+

theorem cog_slash_returns_command_object_witness:
  "cog_slash sample_env PyNone PyNone (PyDict [(''n'', PyInt 4)]) (PyList [PyInt 7]) PyNone
       ''ping''
     = Inr (CogCommandObject (PyStr ''ping'')
         [(''func'', PyFunc ''ping''),
          (''description'', PyStr ''No description''),
          (''auto_convert'', PyDict [(''text'', PyInt 3)]),
          (''guild_ids'', PyList [PyInt 7]),
          (''api_options'',
             PyList [PyDict [(''name'', PyStr ''text''),
                             (''description'', PyStr ''No description''),
                             (''type'', PyInt 3), (''required'', PyBool True)]]),
          (''has_subcommands'', PyBool False)])
   \<and> cog_slash sample_env (PyStr ''plain'') (PyStr ''Plain command'')
        (PyDict [(''n'', PyInt 4)]) PyNone PyNone ''bare''
     = Inr (CogCommandObject (PyStr ''plain'')
         [(''func'', PyFunc ''bare''),
          (''description'', PyStr ''Plain command''),
          (''auto_convert'', PyDict [(''n'', PyInt 4)]),
          (''guild_ids'', PyNone),
          (''api_options'', PyList []),
          (''has_subcommands'', PyBool False)])
   \<and> cog_slash sample_env (PyStr ''echo'') PyNone PyNone PyNone
        (PyList [PyDict [(''name'', PyStr ''n'')]]) ''documented''
     = Inr (CogCommandObject (PyStr ''echo'')
         [(''func'', PyFunc ''documented''),
          (''description'', PyStr ''Says hello.''),
          (''auto_convert'', PyDict [(''text'', PyInt 3)]),
          (''guild_ids'', PyNone),
          (''api_options'', PyList [PyDict [(''name'', PyStr ''n'')]]),
          (''has_subcommands'', PyBool False)])
   \<and> (\<exists>obj. cog_slash sample_env PyNone PyNone (PyDict [(''n'', PyInt 4)])
             (PyList [PyInt 7]) PyNone ''ping'' = Inr obj
          \<and> map fst (descriptor_dict obj)
              = [''func'', ''description'', ''auto_convert'', ''guild_ids'', ''api_options'',
                 ''has_subcommands'']
          \<and> descriptor_name obj = PyStr ''ping'')
   \<and> cog_slash sample_env PyNone PyNone PyNone PyNone PyNone ''broken''
        = Inl ''StopIteration''"
proof -
  note returns = cog_slash_returns_command_object [THEN conjunct1, THEN iffD2]
    and shape = cog_slash_returns_command_object [THEN conjunct2, THEN conjunct1, rule_format]
    and fails = cog_slash_returns_command_object [THEN conjunct2, THEN conjunct2, THEN iffD2]
  have ping: "cog_slash sample_env PyNone PyNone (PyDict [(''n'', PyInt 4)])
       (PyList [PyInt 7]) PyNone ''ping''
     = Inr (CogCommandObject (PyStr ''ping'')
         [(''func'', PyFunc ''ping''),
          (''description'', PyStr ''No description''),
          (''auto_convert'', PyDict [(''text'', PyInt 3)]),
          (''guild_ids'', PyList [PyInt 7]),
          (''api_options'',
             PyList [PyDict [(''name'', PyStr ''text''),
                             (''description'', PyStr ''No description''),
                             (''type'', PyInt 3), (''required'', PyBool True)]]),
          (''has_subcommands'', PyBool False)])"
    by (rule returns) (simp add: sample_env_simps)
  have bare: "cog_slash sample_env (PyStr ''plain'') (PyStr ''Plain command'')
        (PyDict [(''n'', PyInt 4)]) PyNone PyNone ''bare''
     = Inr (CogCommandObject (PyStr ''plain'')
         [(''func'', PyFunc ''bare''),
          (''description'', PyStr ''Plain command''),
          (''auto_convert'', PyDict [(''n'', PyInt 4)]),
          (''guild_ids'', PyNone),
          (''api_options'', PyList []),
          (''has_subcommands'', PyBool False)])"
    by (rule returns) (simp add: sample_env_simps)
  have echo: "cog_slash sample_env (PyStr ''echo'') PyNone PyNone PyNone
        (PyList [PyDict [(''name'', PyStr ''n'')]]) ''documented''
     = Inr (CogCommandObject (PyStr ''echo'')
         [(''func'', PyFunc ''documented''),
          (''description'', PyStr ''Says hello.''),
          (''auto_convert'', PyDict [(''text'', PyInt 3)]),
          (''guild_ids'', PyNone),
          (''api_options'', PyList [PyDict [(''name'', PyStr ''n'')]]),
          (''has_subcommands'', PyBool False)])"
    by (rule returns) (simp add: sample_env_simps)
  have broken: "cog_slash sample_env PyNone PyNone PyNone PyNone PyNone ''broken''
        = Inl ''StopIteration''"
    by (rule fails) (simp add: sample_env_simps)
  from shape [OF ping] ping bare echo broken show ?thesis
    by (simp add: sample_env_simps)
qed

text \<open>
  C7. The wrapper of \<open>cog_subcommand\<close> returns a \<open>CogSubcommandObject\<close> built from a
  dictionary with exactly the keys \<open>func\<close>, \<open>name\<close>, \<open>description\<close>, \<open>base_desc\<close>,
  \<open>sub_group_desc\<close>, \<open>auto_convert\<close>, \<open>guild_ids\<close> and \<open>api_options\<close>, each bound to the
  resolved value, from the \<open>base\<close> argument, from the subcommand name, which is the \<open>name\<close>
  argument if truthy and \<open>cmd.__name__\<close> otherwise and is also the value under \<open>name\<close>, and
  from the \<open>subcommand_group\<close> argument as given (\<open>None\<close> when it is absent). It returns
  this descriptor exactly when the helper calls it makes return, and it fails exactly with
  the exception of the helper call that raised.
\<close>

theorem cog_subcommand_returns_subcommand_object:
  "(cog_subcommand ext base subcommand_group name description base_description base_desc
        subcommand_group_description sub_group_desc auto_convert guild_ids options cmd
      = Inr obj \<longleftrightarrow>
     (\<exists>opts auto_conv.
        (if options = PyNone
         then generate_options ext cmd
                (if truthy description then description
                 else if truthy (getdoc ext cmd) then getdoc ext cmd
                 else PyStr ''No description'') = Inr opts
         else opts = options)
      \<and> (if truthy opts then generate_auto_convert ext opts = Inr auto_conv
         else auto_conv = auto_convert)
      \<and> obj = CogSubcommandObject
          [(''func'', PyFunc cmd),
           (''name'', if truthy name then name else PyStr (name_attr ext cmd)),
           (''description'',
              if truthy description then description
              else if truthy (getdoc ext cmd) then getdoc ext cmd
              else PyStr ''No description''),
           (''base_desc'',
              if truthy base_description then base_description
              else if truthy base_desc then base_desc
              else PyStr ''No Description.''),
           (''sub_group_desc'',
              if truthy subcommand_group_description then subcommand_group_description
              else if truthy sub_group_desc then sub_group_desc
              else PyStr ''No Description.''),
           (''auto_convert'', auto_conv),
           (''guild_ids'', guild_ids),
           (''api_options'', opts)]
          base (if truthy name then name else PyStr (name_attr ext cmd)) subcommand_group))
   \<and> (cog_subcommand ext base subcommand_group name description base_description base_desc
        subcommand_group_description sub_group_desc auto_convert guild_ids options cmd
      = Inr obj \<longrightarrow>
        map fst (descriptor_dict obj)
          = [''func'', ''name'', ''description'', ''base_desc'', ''sub_group_desc'',
             ''auto_convert'', ''guild_ids'', ''api_options'']
        \<and> descriptor_name obj = (if truthy name then name else PyStr (name_attr ext cmd)))
   \<and> (cog_subcommand ext base subcommand_group name description base_description base_desc
        subcommand_group_description sub_group_desc auto_convert guild_ids options cmd
      = Inl e \<longleftrightarrow>
        (options = PyNone
           \<and> generate_options ext cmd
                (if truthy description then description
                 else if truthy (getdoc ext cmd) then getdoc ext cmd
                 else PyStr ''No description'') = Inl e)
        \<or> (\<exists>opts.
             (if options = PyNone
              then generate_options ext cmd
                     (if truthy description then description
                      else if truthy (getdoc ext cmd) then getdoc ext cmd
                      else PyStr ''No description'') = Inr opts
              else opts = options)
           \<and> truthy opts \<and> generate_auto_convert ext opts = Inl e))"
proof (intro conjI impI)
  assume "cog_subcommand ext base subcommand_group name description base_description base_desc
        subcommand_group_description sub_group_desc auto_convert guild_ids options cmd
      = Inr obj"
  then show "map fst (descriptor_dict obj)
          = [''func'', ''name'', ''description'', ''base_desc'', ''sub_group_desc'',
             ''auto_convert'', ''guild_ids'', ''api_options'']"
    by (elim cog_subcommand_InrE) simp
next
  assume "cog_subcommand ext base subcommand_group name description base_description base_desc
        subcommand_group_description sub_group_desc auto_convert guild_ids options cmd
      = Inr obj"
  then show "descriptor_name obj = (if truthy name then name else PyStr (name_attr ext cmd))"
    by (elim cog_subcommand_InrE) (simp add: py_or_def)
qed (rule cog_subcommand_Inr_iff cog_subcommand_Inl_iff)+

theorem cog_subcommand_returns_subcommand_object_witness:
  "cog_subcommand sample_env (PyStr ''group'') PyNone PyNone PyNone (PyStr ''Base'')
       (PyStr ''Alias'') PyNone (PyStr ''Group'') (PyDict [(''n'', PyInt 4)])
       (PyList [PyInt 7]) PyNone ''ping''
     = Inr (CogSubcommandObject
         [(''func'', PyFunc ''ping''),
          (''name'', PyStr ''ping''),
          (''description'', PyStr ''No description''),
          (''base_desc'', PyStr ''Base''),
          (''sub_group_desc'', PyStr ''Group''),
          (''auto_convert'', PyDict [(''text'', PyInt 3)]),
          (''guild_ids'', PyList [PyInt 7]),
          (''api_options'',
             PyList [PyDict [(''name'', PyStr ''text''),
                             (''description'', PyStr ''No description''),
                             (''type'', PyInt 3), (''required'', PyBool True)]])]
         (PyStr ''group'') (PyStr ''ping'') PyNone)
   \<and> cog_subcommand sample_env (PyStr ''group'') (PyStr ''sub'') (PyStr '''') (PyStr '''')
        (PyStr '''') (PyStr ''Alias'') (PyStr '''') PyNone (PyDict [(''n'', PyInt 4)]) PyNone
        (PyList []) ''documented''
     = Inr (CogSubcommandObject
         [(''func'', PyFunc ''documented''),
          (''name'', PyStr ''documented''),
          (''description'', PyStr ''Says hello.''),
          (''base_desc'', PyStr ''Alias''),
          (''sub_group_desc'', PyStr ''No Description.''),
          (''auto_convert'', PyDict [(''n'', PyInt 4)]),
          (''guild_ids'', PyNone),
          (''api_options'', PyList [])]
         (PyStr ''group'') (PyStr ''documented'') (PyStr ''sub''))
   \<and> cog_subcommand sample_env (PyStr ''group'') PyNone (PyStr ''echo'')
        (PyStr ''Plain command'') PyNone PyNone PyNone PyNone PyNone PyNone
        (PyList [PyDict [(''name'', PyStr ''n'')]]) ''bare''
     = Inr (CogSubcommandObject
         [(''func'', PyFunc ''bare''),
          (''name'', PyStr ''echo''),
          (''description'', PyStr ''Plain command''),
          (''base_desc'', PyStr ''No Description.''),
          (''sub_group_desc'', PyStr ''No Description.''),
          (''auto_convert'', PyDict [(''text'', PyInt 3)]),
          (''guild_ids'', PyNone),
          (''api_options'', PyList [PyDict [(''name'', PyStr ''n'')]])]
         (PyStr ''group'') (PyStr ''echo'') PyNone)
   \<and> (\<exists>obj. cog_subcommand sample_env (PyStr ''group'') PyNone PyNone PyNone
             (PyStr ''Base'') (PyStr ''Alias'') PyNone (PyStr ''Group'')
             (PyDict [(''n'', PyInt 4)]) (PyList [PyInt 7]) PyNone ''ping'' = Inr obj
          \<and> map fst (descriptor_dict obj)
              = [''func'', ''name'', ''description'', ''base_desc'', ''sub_group_desc'',
                 ''auto_convert'', ''guild_ids'', ''api_options'']
          \<and> descriptor_name obj = PyStr ''ping'')
   \<and> cog_subcommand sample_env (PyStr ''group'') PyNone PyNone PyNone PyNone PyNone PyNone
        PyNone PyNone PyNone PyNone ''broken'' = Inl ''StopIteration''"
proof -
  note returns = cog_subcommand_returns_subcommand_object [THEN conjunct1, THEN iffD2]
    and shape = cog_subcommand_returns_subcommand_object [THEN conjunct2, THEN conjunct1,
      rule_format]
    and fails = cog_subcommand_returns_subcommand_object [THEN conjunct2, THEN conjunct2,
      THEN iffD2]
  have ping: "cog_subcommand sample_env (PyStr ''group'') PyNone PyNone PyNone
       (PyStr ''Base'') (PyStr ''Alias'') PyNone (PyStr ''Group'') (PyDict [(''n'', PyInt 4)])
       (PyList [PyInt 7]) PyNone ''ping''
     = Inr (CogSubcommandObject
         [(''func'', PyFunc ''ping''),
          (''name'', PyStr ''ping''),
          (''description'', PyStr ''No description''),
          (''base_desc'', PyStr ''Base''),
          (''sub_group_desc'', PyStr ''Group''),
          (''auto_convert'', PyDict [(''text'', PyInt 3)]),
          (''guild_ids'', PyList [PyInt 7]),
          (''api_options'',
             PyList [PyDict [(''name'', PyStr ''text''),
                             (''description'', PyStr ''No description''),
                             (''type'', PyInt 3), (''required'', PyBool True)]])]
         (PyStr ''group'') (PyStr ''ping'') PyNone)"
    by (rule returns) (simp add: sample_env_simps)
  have documented: "cog_subcommand sample_env (PyStr ''group'') (PyStr ''sub'') (PyStr '''')
        (PyStr '''') (PyStr '''') (PyStr ''Alias'') (PyStr '''') PyNone
        (PyDict [(''n'', PyInt 4)]) PyNone (PyList []) ''documented''
     = Inr (CogSubcommandObject
         [(''func'', PyFunc ''documented''),
          (''name'', PyStr ''documented''),
          (''description'', PyStr ''Says hello.''),
          (''base_desc'', PyStr ''Alias''),
          (''sub_group_desc'', PyStr ''No Description.''),
          (''auto_convert'', PyDict [(''n'', PyInt 4)]),
          (''guild_ids'', PyNone),
          (''api_options'', PyList [])]
         (PyStr ''group'') (PyStr ''documented'') (PyStr ''sub''))"
    by (rule returns) (simp add: sample_env_simps)
  have echo: "cog_subcommand sample_env (PyStr ''group'') PyNone (PyStr ''echo'')
        (PyStr ''Plain command'') PyNone PyNone PyNone PyNone PyNone PyNone
        (PyList [PyDict [(''name'', PyStr ''n'')]]) ''bare''
     = Inr (CogSubcommandObject
         [(''func'', PyFunc ''bare''),
          (''name'', PyStr ''echo''),
          (''description'', PyStr ''Plain command''),
          (''base_desc'', PyStr ''No Description.''),
          (''sub_group_desc'', PyStr ''No Description.''),
          (''auto_convert'', PyDict [(''text'', PyInt 3)]),
          (''guild_ids'', PyNone),
          (''api_options'', PyList [PyDict [(''name'', PyStr ''n'')]])]
         (PyStr ''group'') (PyStr ''echo'') PyNone)"
    by (rule returns) (simp add: sample_env_simps)
  have broken: "cog_subcommand sample_env (PyStr ''group'') PyNone PyNone PyNone PyNone
        PyNone PyNone PyNone PyNone PyNone PyNone ''broken'' = Inl ''StopIteration''"
    by (rule fails) (simp add: sample_env_simps)
  from shape [OF ping] ping documented echo broken show ?thesis
    by (simp add: sample_env_simps)
qed

text \<open>
  C9. Because defaulting uses \<open>or\<close>, an empty string counts as a missing argument:
  \<open>description=""\<close> stores the docstring, or the placeholder when the docstring is falsy,
  and never the empty description; \<open>name=""\<close> makes \<open>cmd.__name__\<close> the command name; in
  \<open>cog_subcommand\<close>, \<open>base_description=""\<close> stores the alias \<open>base_desc\<close>, or
  \<open>No Description.\<close> when the alias is falsy, and \<open>subcommand_group_description=""\<close> does
  the same with the alias \<open>sub_group_desc\<close>.
\<close>

theorem empty_string_is_missing:
  "(cog_slash ext name (PyStr '''') auto_convert guild_ids options cmd = Inr obj1 \<longrightarrow>
      field obj1 ''description''
        = Some (if truthy (getdoc ext cmd) then getdoc ext cmd else PyStr ''No description'')
      \<and> field obj1 ''description'' \<noteq> Some (PyStr ''''))
   \<and> (cog_slash ext (PyStr '''') description auto_convert guild_ids options cmd = Inr obj2
        \<longrightarrow> descriptor_name obj2 = PyStr (name_attr ext cmd))
   \<and> (cog_subcommand ext base subcommand_group name (PyStr '''') base_description base_desc
        subcommand_group_description sub_group_desc auto_convert guild_ids options cmd
        = Inr obj3 \<longrightarrow>
      field obj3 ''description''
        = Some (if truthy (getdoc ext cmd) then getdoc ext cmd else PyStr ''No description'')
      \<and> field obj3 ''description'' \<noteq> Some (PyStr ''''))
   \<and> (cog_subcommand ext base subcommand_group (PyStr '''') description base_description
        base_desc subcommand_group_description sub_group_desc auto_convert guild_ids options
        cmd = Inr obj4 \<longrightarrow>
      descriptor_name obj4 = PyStr (name_attr ext cmd)
      \<and> field obj4 ''name'' = Some (PyStr (name_attr ext cmd)))
   \<and> (cog_subcommand ext base subcommand_group name description (PyStr '''') base_desc
        subcommand_group_description sub_group_desc auto_convert guild_ids options cmd
        = Inr obj5 \<longrightarrow>
      field obj5 ''base_desc''
        = Some (if truthy base_desc then base_desc else PyStr ''No Description.'')
      \<and> field obj5 ''base_desc'' \<noteq> Some (PyStr ''''))
   \<and> (cog_subcommand ext base subcommand_group name description base_description base_desc
        (PyStr '''') sub_group_desc auto_convert guild_ids options cmd = Inr obj6 \<longrightarrow>
      field obj6 ''sub_group_desc''
        = Some (if truthy sub_group_desc then sub_group_desc else PyStr ''No Description.'')
      \<and> field obj6 ''sub_group_desc'' \<noteq> Some (PyStr ''''))"
proof -
  have nonempty: "v \<noteq> PyStr ''''" if "truthy v" for v :: "'a pyval"
    using that by auto
  show ?thesis
    by (intro conjI impI; (elim cog_slash_InrE cog_subcommand_InrE)?)
       (auto simp: field_def py_or_def dest: nonempty)
qed

theorem empty_string_is_missing_witness:
  "(\<exists>obj. cog_slash sample_env (PyStr '''') (PyStr '''') (PyDict [(''n'', PyInt 4)]) PyNone
             (PyList []) ''documented'' = Inr obj
          \<and> field obj ''description'' = Some (PyStr ''Says hello.'')
          \<and> descriptor_name obj = PyStr ''documented'')
   \<and> (\<exists>obj. cog_subcommand sample_env (PyStr ''group'') (PyStr ''sub'') (PyStr '''')
             (PyStr '''') (PyStr '''') (PyStr ''Alias'') (PyStr '''') PyNone
             (PyDict [(''n'', PyInt 4)]) PyNone (PyList []) ''documented'' = Inr obj
          \<and> field obj ''description'' = Some (PyStr ''Says hello.'')
          \<and> descriptor_name obj = PyStr ''documented''
          \<and> field obj ''name'' = Some (PyStr ''documented'')
          \<and> field obj ''base_desc'' = Some (PyStr ''Alias'')
          \<and> field obj ''sub_group_desc'' = Some (PyStr ''No Description.''))"
  using empty_string_is_missing [THEN conjunct1, rule_format, OF slash_documented]
    empty_string_is_missing [THEN conjunct2, THEN conjunct1, rule_format, OF slash_documented]
    empty_string_is_missing [THEN conjunct2, THEN conjunct2, THEN conjunct1, rule_format,
      OF sub_documented]
    empty_string_is_missing [THEN conjunct2, THEN conjunct2, THEN conjunct2, THEN conjunct1,
      rule_format, OF sub_documented]
    empty_string_is_missing [THEN conjunct2, THEN conjunct2, THEN conjunct2, THEN conjunct2,
      THEN conjunct1, rule_format, OF sub_documented]
    empty_string_is_missing [THEN conjunct2, THEN conjunct2, THEN conjunct2, THEN conjunct2,
      THEN conjunct2, rule_format, OF sub_documented]
  by (simp add: slash_documented sub_documented sample_env_simps)

end
